theory Spec2Isabelle
  imports Complex_Main "HOL-Library.List_Lexorder" "HOL-Library.Char_ord"
begin

section \<open>The study log as a table\<close>

text \<open>
  The statistics code of \<^verbatim>\<open>study_analyzer.py\<close> and \<^verbatim>\<open>Neet.py\<close> works on a pandas frame
  built from the logged entries, one row per entry, after \<^verbatim>\<open>pd.to_datetime\<close> and the
  conversion of the duration column to numbers. The model keeps the three columns the
  statistics below read.

  \<^item> A calendar date is its proleptic Gregorian ordinal (\<^verbatim>\<open>date.toordinal()\<close>), an
    \<^typ>\<open>int\<close>: the number of days between two dates, \<^verbatim>\<open>(a - b).days\<close>, is the
    difference of their ordinals. Entries carry dates without a time of day.
  \<^item> A Python \<^verbatim>\<open>float\<close> is modelled by the rational number it stands for: the arithmetic
    below is exact, and the rounding error of binary floating point is outside the model.

  Building the frame is outside the model as well: when a conversion fails,
  \<^verbatim>\<open>calculate_stats\<close> reports a streak of 0 through its \<^verbatim>\<open>except\<close> branch and the
  constructor of \<^verbatim>\<open>StudyAnalyzer\<close> raises.
\<close>

type_synonym date = int

record entry =
  Date :: date
  Subject :: string
  Study_Duration :: rat

type_synonym frame = "entry list"

subsection \<open>Streaks\<close>

text \<open>\<^verbatim>\<open>sorted(df['Date'].dt.date.unique())\<close>: the distinct dates in ascending order.\<close>

definition sorted_unique_dates :: "frame \<Rightarrow> date list" where
  "sorted_unique_dates data = sort (remdups (map Date data))"

text \<open>
  \<^verbatim>\<open>StudyAnalyzer._calculate_streak\<close> (study_analyzer.py, lines 51 to 65). The loop
  \<^verbatim>\<open>for i in range(len(dates)-1)\<close> runs \<open>i\<close> upwards from 0 and leaves at the first pair
  of neighbours that are not one day apart.
\<close>

function calculate_streak_loop :: "date list \<Rightarrow> nat \<Rightarrow> nat \<Rightarrow> nat" where
  "calculate_streak_loop dates i current_streak =
     (if i < length dates - 1 then
        (if dates ! (i + 1) - dates ! i = 1
         then calculate_streak_loop dates (i + 1) (current_streak + 1)
         else current_streak)
      else current_streak)"
  by pat_completeness auto
termination
  by (relation "measure (\<lambda>(dates, i, s). length dates - 1 - i)") auto

definition calculate_streak :: "frame \<Rightarrow> nat" where
  "calculate_streak data =
     (if data = [] then 0
      else calculate_streak_loop (sorted_unique_dates data) 0 1)"

text \<open>
  The streak of \<^verbatim>\<open>calculate_stats\<close> (Neet.py, lines 156 to 163). The loop
  \<^verbatim>\<open>for i in range(len(dates)-1, 0, -1)\<close> runs \<open>i\<close> downwards from the last index to 1
  and compares \<^verbatim>\<open>dates[i]\<close> with \<^verbatim>\<open>dates[i-1]\<close>; the index \<open>i\<close> is \<open>Suc j\<close> below.
\<close>

fun calculate_stats_loop :: "date list \<Rightarrow> nat \<Rightarrow> nat \<Rightarrow> nat" where
  "calculate_stats_loop dates 0 streak = streak"
| "calculate_stats_loop dates (Suc j) streak =
     (if dates ! (Suc j) - dates ! j = 1
      then calculate_stats_loop dates j (streak + 1)
      else streak)"

definition calculate_stats_streak :: "frame \<Rightarrow> nat" where
  "calculate_stats_streak data =
     (if data = [] then 0
      else let dates = sorted_unique_dates data
           in calculate_stats_loop dates (length dates - 1) 1)"

text \<open>
  The streak as the specification words it: over the distinct dates, most recent first,
  count while each date is exactly one day before the one already counted.
\<close>

fun walk_back :: "date list \<Rightarrow> nat" where
  "walk_back [] = 0"
| "walk_back [d] = 1"
| "walk_back (d # e # rest) = (if d - e = 1 then Suc (walk_back (e # rest)) else 1)"

definition spec_streak :: "frame \<Rightarrow> nat" where
  "spec_streak data = walk_back (rev (sorted_unique_dates data))"

text \<open>The same walk from the oldest date onwards: the length of the oldest run.\<close>

fun walk_forward :: "date list \<Rightarrow> nat" where
  "walk_forward [] = 0"
| "walk_forward [d] = 1"
| "walk_forward (d # e # rest) = (if e - d = 1 then Suc (walk_forward (e # rest)) else 1)"

text \<open>A log with one entry (any subject, two hours) on each of the given days.\<close>

definition on_days :: "date list \<Rightarrow> frame" where
  "on_days ds = map (\<lambda>d. \<lparr>Date = d, Subject = ''Physics'', Study_Duration = 2\<rparr>) ds"

subsection \<open>Rounding\<close>

text \<open>
  \<^verbatim>\<open>round(x, ndigits)\<close> of Python and \<^verbatim>\<open>Series.round\<close> of pandas round to the nearest
  multiple of \<open>10\<^sup>-\<^sup>n\<close> and break ties towards the even digit.
\<close>

definition round_half_even :: "rat \<Rightarrow> int" where
  "round_half_even x =
     (let f = \<lfloor>x\<rfloor>; r = x - of_int f
      in if r < 1 / 2 then f else if 1 / 2 < r then f + 1 else if even f then f else f + 1)"

definition py_round :: "rat \<Rightarrow> nat \<Rightarrow> rat" where
  "py_round x ndigits = of_int (round_half_even (x * 10 ^ ndigits)) / 10 ^ ndigits"

subsection \<open>Consistency score\<close>



subsection \<open>Subject balance\<close>

text \<open>
  \<^verbatim>\<open>groupby('Subject')['Study Duration'].sum()\<close>: one row per distinct subject, in the
  order of the subject names, with the sum of the durations of that subject's entries.
\<close>

definition subject_sum :: "frame \<Rightarrow> string \<Rightarrow> rat" where
  "subject_sum data s = sum_list (map Study_Duration (filter (\<lambda>r. Subject r = s) data))"

definition groupby_sum :: "frame \<Rightarrow> (string \<times> rat) list" where
  "groupby_sum data = map (\<lambda>s. (s, subject_sum data s)) (sort (remdups (map Subject data)))"

text \<open>
  \<^verbatim>\<open>StudyAnalyzer._analyze_subject_balance\<close> (study_analyzer.py, lines 161 to 173); the
  dictionary it returns is the list of its items.
\<close>

definition analyze_subject_balance :: "frame \<Rightarrow> (string \<times> rat) list" where
  "analyze_subject_balance data =
     (if data = [] then []
      else let subject_hours = groupby_sum data;
               total_hours = sum_list (map snd subject_hours)
           in if total_hours = 0 then []
              else map (\<lambda>(s, h). (s, py_round (h / total_hours * 100) 2)) subject_hours)"

text \<open>
  The \<^verbatim>\<open>Percentage\<close> column of \<^verbatim>\<open>show_dashboard\<close> (Neet.py, lines 183 to 244): the page
  returns early on an empty log, and the column exists only when the total is positive.
\<close>

definition show_dashboard_percentage :: "frame \<Rightarrow> (string \<times> rat) list option" where
  "show_dashboard_percentage data =
     (if data = [] then None
      else let subject_hours = groupby_sum data;
               total_hours = sum_list (map snd subject_hours)
           in if total_hours > 0
              then Some (map (\<lambda>(s, h). (s, py_round (h / total_hours * 100) 1)) subject_hours)
              else None)"

text \<open>
  The percentages as the specification words them: for each subject its summed duration
  divided by the total duration, times 100, rounded to the given number of decimals.
\<close>

definition spec_percentages :: "frame \<Rightarrow> nat \<Rightarrow> (string \<times> rat) list" where
  "spec_percentages data ndigits =
     map (\<lambda>s. (s, py_round (subject_sum data s / sum_list (map Study_Duration data) * 100) ndigits))
       (sort (remdups (map Subject data)))"

text \<open>Two small logs: one hour of Physics and two of Chemistry, and a log without study time.\<close>

definition two_subjects :: frame where
  "two_subjects = [\<lparr>Date = 739252, Subject = ''Physics'', Study_Duration = 1\<rparr>,
                   \<lparr>Date = 739252, Subject = ''Chemistry'', Study_Duration = 2\<rparr>]"

definition idle_log :: frame where
  "idle_log = [\<lparr>Date = 739252, Subject = ''Botany'', Study_Duration = 0\<rparr>]"

section \<open>Target progress\<close>

text \<open>
  \<^verbatim>\<open>show_target_setting\<close> (Neet.py, lines 905 and 906). \<^verbatim>\<open>int(x)\<close> of a float truncates
  towards zero.
\<close>

definition py_int :: "rat \<Rightarrow> int" where
  "py_int x = (if 0 \<le> x then \<lfloor>x\<rfloor> else \<lceil>x\<rceil>)"

definition hours_percent :: "rat \<Rightarrow> rat \<Rightarrow> int" where
  "hours_percent current_hours target_hours =
     min 100 (py_int (if target_hours > 0 then current_hours / target_hours * 100 else 0))"

definition questions_percent :: "rat \<Rightarrow> rat \<Rightarrow> int" where
  "questions_percent current_questions target_questions =
     min 100 (py_int (if target_questions > 0
                      then current_questions / target_questions * 100 else 0))"

section \<open>The entry validator\<close>

text \<open>
  \<^verbatim>\<open>DataManager.validate_study_entry\<close> (data_manager.py, lines 67 to 94) takes a
  dictionary with string keys. A value is a string or something else (\<^verbatim>\<open>None\<close>, a number,
  a boolean, a list, a dictionary: what JSON or a form can put there); the validator
  treats all values of the second kind alike, so they are one constructor. An exception
  that leaves the function is the \<open>Inl\<close> of the result.
\<close>

datatype pyval = PStr string | PNonStr

type_synonym candidate = "string \<rightharpoonup> pyval"

datatype py_error = IndexError | TypeError | OSError

subsection \<open>Dates: \<^verbatim>\<open>datetime.strptime(s, '%Y-%m-%d')\<close>\<close>

text \<open>
  \<^verbatim>\<open>strptime\<close> matches the whole string against the pattern of the format: four digits
  for \<^verbatim>\<open>%Y\<close>; \<^verbatim>\<open>1[0-2]|0[1-9]|[1-9]\<close> for \<^verbatim>\<open>%m\<close>;
  \<^verbatim>\<open>3[0-1]|[1-2]\d|0[1-9]|[1-9]| [1-9]\<close> for \<^verbatim>\<open>%d\<close>; a hyphen between them. It
  then builds the date, which fails for the year 0 and for a day the month does not have.
  Every failure is a \<^verbatim>\<open>ValueError\<close>, here \<open>None\<close>. Characters are bytes, so the digits of
  other scripts that \<^verbatim>\<open>\d\<close> accepts are outside the model.
\<close>

definition is_digit :: "char \<Rightarrow> bool" where
  "is_digit c = (c \<in> set ''0123456789'')"

definition digit_val :: "char \<Rightarrow> nat" where
  "digit_val c = of_char c - 48"

definition digits_val :: "string \<Rightarrow> nat" where
  "digits_val ds = foldl (\<lambda>n c. 10 * n + digit_val c) 0 ds"

definition is_leap :: "nat \<Rightarrow> bool" where
  "is_leap year = (year mod 4 = 0 \<and> (year mod 100 \<noteq> 0 \<or> year mod 400 = 0))"

definition days_in_month :: "nat \<Rightarrow> nat \<Rightarrow> nat" where
  "days_in_month year month =
     (if month = 2 then (if is_leap year then 29 else 28)
      else if month \<in> {4, 6, 9, 11} then 30 else 31)"

definition month_field :: "string \<Rightarrow> bool" where
  "month_field m =
     (case m of
        [a] \<Rightarrow> a \<in> set ''123456789''
      | [a, b] \<Rightarrow> (a = CHR ''1'' \<and> b \<in> set ''012'') \<or> (a = CHR ''0'' \<and> b \<in> set ''123456789'')
      | _ \<Rightarrow> False)"

definition day_field :: "string \<Rightarrow> bool" where
  "day_field d =
     (case d of
        [a] \<Rightarrow> a \<in> set ''123456789''
      | [a, b] \<Rightarrow> (a = CHR ''3'' \<and> b \<in> set ''01'') \<or> (a \<in> set ''12'' \<and> is_digit b)
                  \<or> (a \<in> set ''0 '' \<and> b \<in> set ''123456789'')
      | _ \<Rightarrow> False)"

definition strptime_ymd :: "string \<Rightarrow> (nat \<times> nat \<times> nat) option" where
  "strptime_ymd s =
     (if length s < 5 \<or> \<not> list_all is_digit (take 4 s) \<or> s ! 4 \<noteq> CHR ''-'' then None
      else let rest = drop 5 s;
               m = takeWhile (\<lambda>c. c \<noteq> CHR ''-'') rest;
               after = dropWhile (\<lambda>c. c \<noteq> CHR ''-'') rest
           in if after = [] \<or> \<not> month_field m \<or> \<not> day_field (tl after) then None
              else let year = digits_val (take 4 s);
                       month = digits_val m;
                       day = digits_val (filter is_digit (tl after))
                   in if 1 \<le> year \<and> day \<le> days_in_month year month
                      then Some (year, month, day) else None)"

text \<open>
  \<^verbatim>\<open>date.toordinal()\<close>: the days of the years before, of the months before, and the
  day of the month. It links the dates that \<^verbatim>\<open>strptime\<close> reads to the ordinals in the
  \<^verbatim>\<open>Date\<close> column.
\<close>

definition toordinal :: "nat \<Rightarrow> nat \<Rightarrow> nat \<Rightarrow> date" where
  "toordinal year month day =
     (let y = int year - 1
      in y * 365 + y div 4 - y div 100 + y div 400
         + int (sum_list (map (days_in_month year) [1..<month])) + int day)"

subsection \<open>Durations: \<^verbatim>\<open>float(s.split()[0])\<close>\<close>

text \<open>
  \<^verbatim>\<open>str.split()\<close> without arguments cuts the string at runs of whitespace and drops
  empty pieces; the whitespace characters below 128 are the ones listed.
\<close>

definition is_space :: "char \<Rightarrow> bool" where
  "is_space c = (of_char c \<in> {9, 10, 11, 12, 13, 28, 29, 30, 31, 32 :: nat})"

function py_split :: "string \<Rightarrow> string list" where
  "py_split s =
     (let s' = dropWhile is_space s
      in if s' = [] then []
         else takeWhile (\<lambda>c. \<not> is_space c) s' # py_split (dropWhile (\<lambda>c. \<not> is_space c) s'))"
  by pat_completeness auto
termination
proof (relation "measure length")
  show "wf (measure length)" by simp
next
  fix s s' :: string
  assume s': "s' = dropWhile is_space s" and ne: "s' \<noteq> []"
  from ne s' have "\<not> is_space (hd s')" by (simp add: hd_dropWhile)
  with ne have "dropWhile (\<lambda>c. \<not> is_space c) s' = dropWhile (\<lambda>c. \<not> is_space c) (tl s')"
    by (cases s') simp_all
  then have "length (dropWhile (\<lambda>c. \<not> is_space c) s') \<le> length (tl s')"
    using length_dropWhile_le [of "\<lambda>c. \<not> is_space c" "tl s'"] by simp
  also have "length (tl s') < length s'" using ne by (cases s') simp_all
  also have "length s' \<le> length s" using s' by (simp add: length_dropWhile_le)
  finally show "(dropWhile (\<lambda>c. \<not> is_space c) s', s) \<in> measure length" by simp
qed

declare py_split.simps [simp del]

text \<open>
  \<^verbatim>\<open>float(s)\<close> on a string without whitespace: an optional sign, then \<^verbatim>\<open>inf\<close>,
  \<^verbatim>\<open>infinity\<close> or \<^verbatim>\<open>nan\<close> in any case, or a decimal number with an optional
  exponent, where single underscores may separate digits. A finite value is the rational
  number the text denotes. \<open>None\<close> is \<^verbatim>\<open>ValueError\<close>.
\<close>

datatype pyfloat = Finite rat | PosInf | NegInf | NaN

definition lower :: "char \<Rightarrow> char" where
  "lower c = (if 65 \<le> (of_char c :: nat) \<and> (of_char c :: nat) \<le> 90
              then char_of (of_char c + 32 :: nat) else c)"

fun digitpart_tail :: "string \<Rightarrow> string \<times> string" where
  "digitpart_tail [] = ([], [])"
| "digitpart_tail (c # cs) =
     (if is_digit c then (let (ds, r) = digitpart_tail cs in (c # ds, r))
      else if c = CHR ''_'' then
        (case cs of
           d # cs' \<Rightarrow> if is_digit d then (let (ds, r) = digitpart_tail cs' in (d # ds, r))
                      else ([], c # cs)
         | [] \<Rightarrow> ([], c # cs))
      else ([], c # cs))"

definition digitpart :: "string \<Rightarrow> (string \<times> string) option" where
  "digitpart s =
     (case s of
        c # cs \<Rightarrow> if is_digit c then (let (ds, r) = digitpart_tail cs in Some (c # ds, r))
                  else None
      | [] \<Rightarrow> None)"

definition number :: "string \<Rightarrow> (string \<times> string \<times> string) option" where
  "number s =
     (case digitpart s of
        Some (ip, r) \<Rightarrow>
          (case r of
             c # r' \<Rightarrow>
               if c = CHR ''.'' then
                 (case digitpart r' of
                    Some (fp, r'') \<Rightarrow> Some (ip, fp, r'')
                  | None \<Rightarrow> Some (ip, [], r'))
               else Some (ip, [], r)
           | [] \<Rightarrow> Some (ip, [], r))
      | None \<Rightarrow>
          (case s of
             c # r' \<Rightarrow>
               if c = CHR ''.'' then
                 (case digitpart r' of
                    Some (fp, r'') \<Rightarrow> Some ([], fp, r'')
                  | None \<Rightarrow> None)
               else None
           | [] \<Rightarrow> None))"

definition exponent :: "string \<Rightarrow> int option" where
  "exponent r =
     (case r of
        [] \<Rightarrow> Some 0
      | e # r1 \<Rightarrow>
          if e = CHR ''e'' \<or> e = CHR ''E'' then
            (let (neg, r2) = (case r1 of
                                c # r2 \<Rightarrow> if c = CHR ''-'' then (True, r2)
                                           else if c = CHR ''+'' then (False, r2)
                                           else (False, r1)
                              | [] \<Rightarrow> (False, r1))
             in case digitpart r2 of
                  Some (ds, rest) \<Rightarrow>
                    if rest = [] then Some (if neg then - int (digits_val ds) else int (digits_val ds))
                    else None
                | None \<Rightarrow> None)
          else None)"

definition scale10 :: "rat \<Rightarrow> int \<Rightarrow> rat" where
  "scale10 m e = (if 0 \<le> e then m * 10 ^ nat e else m / 10 ^ nat (- e))"

definition py_float :: "string \<Rightarrow> pyfloat option" where
  "py_float s =
     (let (neg, body) = (case s of
                           c # cs \<Rightarrow> if c = CHR ''-'' then (True, cs)
                                      else if c = CHR ''+'' then (False, cs)
                                      else (False, s)
                         | [] \<Rightarrow> (False, s));
          word = map lower body
      in if word = ''inf'' \<or> word = ''infinity'' then Some (if neg then NegInf else PosInf)
         else if word = ''nan'' then Some NaN
         else (case number body of
                 None \<Rightarrow> None
               | Some (ip, fp, r) \<Rightarrow>
                   (case exponent r of
                      None \<Rightarrow> None
                    | Some e \<Rightarrow>
                        (let m = scale10 (of_nat (digits_val (ip @ fp))) (e - int (length fp))
                         in Some (Finite (if neg then - m else m))))))"

text \<open>Comparisons of a float with a number: every comparison with NaN is false.\<close>

definition float_less :: "pyfloat \<Rightarrow> rat \<Rightarrow> bool" where
  "float_less x r = (case x of Finite q \<Rightarrow> q < r | NegInf \<Rightarrow> True | _ \<Rightarrow> False)"

definition float_greater :: "pyfloat \<Rightarrow> rat \<Rightarrow> bool" where
  "float_greater x r = (case x of Finite q \<Rightarrow> r < q | PosInf \<Rightarrow> True | _ \<Rightarrow> False)"

subsection \<open>The validator\<close>

definition required_fields :: "string list" where
  "required_fields = [''Date'', ''Subject'', ''Study Duration'']"

definition valid_subjects :: "string list" where
  "valid_subjects = [''Physics'', ''Chemistry'', ''Botany'', ''Zoology'']"

text \<open>
  The checks in the order of the source. \<^verbatim>\<open>strptime\<close> raises \<^verbatim>\<open>TypeError\<close> for a
  value that is not a string, and only \<^verbatim>\<open>ValueError\<close> is caught there. A duration that
  is not a string has no \<^verbatim>\<open>split\<close>: \<^verbatim>\<open>AttributeError\<close>, caught. The index \<^verbatim>\<open>[0]\<close>
  into an empty list of tokens raises \<^verbatim>\<open>IndexError\<close>, which the \<^verbatim>\<open>except\<close> clause does
  not name.
\<close>

definition validate_study_entry :: "candidate \<Rightarrow> py_error + bool" where
  "validate_study_entry entry =
     (if \<not> list_all (\<lambda>field. entry field \<noteq> None) required_fields then Inr False
      else case entry ''Date'' of
             Some (PStr date_string) \<Rightarrow>
               (case strptime_ymd date_string of
                  None \<Rightarrow> Inr False
                | Some _ \<Rightarrow>
                    if entry ''Subject'' \<notin> set (map (\<lambda>s. Some (PStr s)) valid_subjects) then Inr False
                    else (case entry ''Study Duration'' of
                            Some (PStr d) \<Rightarrow>
                              (case py_split d of
                                 [] \<Rightarrow> Inl IndexError
                               | tok # _ \<Rightarrow>
                                   (case py_float tok of
                                      None \<Rightarrow> Inr False
                                    | Some duration \<Rightarrow>
                                        if float_less duration 0 \<or> float_greater duration 24
                                        then Inr False else Inr True))
                          | _ \<Rightarrow> Inr False))
           | _ \<Rightarrow> Inl TypeError)"

text \<open>A candidate with the three required keys and string values.\<close>

definition candidate_of :: "string \<Rightarrow> string \<Rightarrow> string \<Rightarrow> candidate" where
  "candidate_of d s h = [''Date'' \<mapsto> PStr d, ''Subject'' \<mapsto> PStr s, ''Study Duration'' \<mapsto> PStr h]"

text \<open>
  The duration check as the specification words it: the leading token parses as a float
  in [0, 24].
\<close>

definition spec_duration_in_range :: "string \<Rightarrow> bool" where
  "spec_duration_in_range tok =
     (case py_float tok of Some (Finite q) \<Rightarrow> 0 \<le> q \<and> q \<le> 24 | _ \<Rightarrow> False)"

section \<open>The persistence store\<close>

text \<open>
  \<^verbatim>\<open>DataManager.load_data\<close> and \<^verbatim>\<open>DataManager.save_data\<close> (data_manager.py, lines 29
  to 65) keep each collection in one JSON file. The file system is a map from paths to
  file contents. \<^verbatim>\<open>json.dump\<close> and \<^verbatim>\<open>json.load\<close> belong to Python's library, not to
  the repository, so the two functions take them as a parameter: \<open>dumps\<close> gives the text of
  a value (\<open>Inr\<close>), or the part of the text already written when it raises on a value it
  cannot serialise (\<open>Inl\<close>); \<open>loads\<close> gives the value of a text, or \<open>None\<close> when it raises.
\<close>

datatype json =
    JNull | JBool bool | JNum rat | JStr string
  | JArr "json list" | JObj "(string \<times> json) list"

type_synonym path = string
type_synonym filesystem = "path \<rightharpoonup> string"

record codec =
  dumps :: "json \<Rightarrow> string + string"
  loads :: "string \<Rightarrow> json option"

text \<open>
  Which of the system calls raise is the environment's choice, not the program's: each
  field says whether that call raises \<^verbatim>\<open>OSError\<close> when the program reaches it.
  \<open>write_fails = Some partial\<close> is a write that raises after \<open>partial\<close> has reached the
  file. A failed \<^verbatim>\<open>os.replace\<close>, \<^verbatim>\<open>open\<close> or \<^verbatim>\<open>os.remove\<close> leaves the files as they are.
\<close>

record faults =
  replace_fails :: bool
  open_fails :: bool
  write_fails :: "string option"
  remove_fails :: bool
  restore_fails :: bool
  read_fails :: bool

definition no_faults :: faults where
  "no_faults = \<lparr>replace_fails = False, open_fails = False, write_fails = None,
                 remove_fails = False, restore_fails = False, read_fails = False\<rparr>"

text \<open>\<^verbatim>\<open>os.path.join(self.data_dir, filename)\<close> on a POSIX system.\<close>

definition get_file_path :: "path \<Rightarrow> string \<Rightarrow> path" where
  "get_file_path data_dir filename =
     (if filename \<noteq> [] \<and> hd filename = CHR ''/'' then filename
      else if data_dir = [] \<or> last data_dir = CHR ''/'' then data_dir @ filename
      else data_dir @ ''/'' @ filename)"

text \<open>\<^verbatim>\<open>os.replace(src, dst)\<close> for an existing \<open>src\<close>: \<open>dst\<close> gets the content, \<open>src\<close> is gone.\<close>

definition os_replace :: "filesystem \<Rightarrow> path \<Rightarrow> path \<Rightarrow> filesystem" where
  "os_replace fs src dst = (fs(dst := fs src))(src := None)"

text \<open>
  \<^verbatim>\<open>load_data\<close>: every exception inside the \<^verbatim>\<open>try\<close> block ends in \<^verbatim>\<open>return []\<close>.
\<close>

definition load_data :: "codec \<Rightarrow> faults \<Rightarrow> path \<Rightarrow> filesystem \<Rightarrow> string \<Rightarrow> json" where
  "load_data js fl data_dir fs filename =
     (let file_path = get_file_path data_dir filename
      in case fs file_path of
           Some text \<Rightarrow>
             (if read_fails fl then JArr []
              else case loads js text of Some v \<Rightarrow> v | None \<Rightarrow> JArr [])
         | None \<Rightarrow> JArr [])"

text \<open>
  The \<^verbatim>\<open>try\<close> block of \<^verbatim>\<open>save_data\<close> (lines 47 to 59): the files as the block leaves
  them, and whether it reached \<^verbatim>\<open>return True\<close>. \<^verbatim>\<open>open(file_path, 'w')\<close> creates or
  empties the file before anything is written.
\<close>

definition save_data_try ::
  "codec \<Rightarrow> faults \<Rightarrow> filesystem \<Rightarrow> path \<Rightarrow> path \<Rightarrow> json \<Rightarrow> filesystem \<times> bool" where
  "save_data_try js fl fs file_path backup_path data =
     (if fs file_path \<noteq> None \<and> replace_fails fl then (fs, False)
      else let fs1 = (if fs file_path \<noteq> None then os_replace fs file_path backup_path else fs)
           in if open_fails fl then (fs1, False)
              else case dumps js data of
                     Inl partial \<Rightarrow> (fs1(file_path \<mapsto> partial), False)
                   | Inr text \<Rightarrow>
                       (case write_fails fl of
                          Some partial \<Rightarrow> (fs1(file_path \<mapsto> partial), False)
                        | None \<Rightarrow>
                            (let fs2 = fs1(file_path \<mapsto> text)
                             in if fs2 backup_path \<noteq> None
                                then (if remove_fails fl then (fs2, False)
                                      else (fs2(backup_path := None), True))
                                else (fs2, True))))"

text \<open>
  \<^verbatim>\<open>save_data\<close> with its \<^verbatim>\<open>except\<close> branch (lines 60 to 65). An exception of the
  restoring \<^verbatim>\<open>os.replace\<close> is raised inside the handler and leaves the function.
\<close>

definition save_data ::
  "codec \<Rightarrow> faults \<Rightarrow> path \<Rightarrow> filesystem \<Rightarrow> string \<Rightarrow> json \<Rightarrow> filesystem \<times> (py_error + bool)" where
  "save_data js fl data_dir fs filename data =
     (let file_path = get_file_path data_dir filename;
          backup_path = file_path @ ''.backup''
      in case save_data_try js fl fs file_path backup_path data of
           (fs', True) \<Rightarrow> (fs', Inr True)
         | (fs', False) \<Rightarrow>
             (if fs' backup_path \<noteq> None
              then (if restore_fails fl then (fs', Inl OSError)
                    else (os_replace fs' backup_path file_path, Inr False))
              else (fs', Inr False)))"

text \<open>An exception while the new content is written: at \<^verbatim>\<open>open\<close> or during the dump.\<close>

definition write_exception :: "codec \<Rightarrow> faults \<Rightarrow> json \<Rightarrow> bool" where
  "write_exception js fl data =
     (open_fails fl \<or> write_fails fl \<noteq> None \<or> isl (dumps js data))"

text \<open>
  A small instance for the examples: the texts Python's \<^verbatim>\<open>json.dump(v, f, indent=4)\<close>
  writes for the empty list and for a list holding one empty record, and a value this
  instance refuses after the opening bracket.
\<close>

definition sample_text :: string where
  "sample_text = ''['' @ [CHR 0x0A] @ ''    {}'' @ [CHR 0x0A] @ '']''"

definition sample_codec :: codec where
  "sample_codec =
     \<lparr>dumps = (\<lambda>v. if v = JArr [] then Inr ''[]''
                    else if v = JArr [JObj []] then Inr sample_text
                    else Inl ''[''),
      loads = (\<lambda>s. if s = ''[]'' then Some (JArr [])
                    else if s = sample_text then Some (JArr [JObj []])
                    else None)\<rparr>"

definition sample_fs :: filesystem where
  "sample_fs = [''data/log.json'' \<mapsto> ''[]'']"

section \<open>The account store\<close>

text \<open>
  \<^verbatim>\<open>AuthManager.authenticate_user\<close> (auth_manager.py, lines 72 to 107). A point in time is
  a number of microseconds, the resolution of \<^verbatim>\<open>datetime\<close>; the ISO strings the code stores
  stand for the times themselves. The readings of the clock within one call are taken as
  one instant \<open>now\<close>. \<^verbatim>\<open>hashlib.sha256\<close> is a parameter, and a token is its payload.
  \<^verbatim>\<open>_save_users\<close> writes the accounts to a file and swallows every error: it does not
  change the accounts in memory, which are the state below.
\<close>

type_synonym time = int



record user =
  password :: string
  email :: string
  created_at :: time
  last_login :: "time option"
  failed_attempts :: int
  locked_until :: "time option"





text \<open>The account is locked at \<open>now\<close>: it has a \<^verbatim>\<open>locked_until\<close> that lies in the future.\<close>

definition is_locked :: "user \<Rightarrow> time \<Rightarrow> bool" where
  "is_locked u now = (case locked_until u of Some t \<Rightarrow> now < t | None \<Rightarrow> False)"





section \<open>Properties of the streak\<close>

lemma calculate_stats_loop_walk_back:
  "j < length dates \<Longrightarrow>
   calculate_stats_loop dates j s + 1 = s + walk_back (rev (take (Suc j) dates))"
proof (induction j arbitrary: s)
  case 0
  then show ?case by (cases dates) simp_all
next
  case (Suc j)
  from Suc.prems have j: "j < length dates" by simp
  have "rev (take (Suc (Suc j)) dates) = dates ! Suc j # dates ! j # rev (take j dates)"
    using Suc.prems j by (simp add: take_Suc_conv_app_nth)
  moreover have "rev (take (Suc j) dates) = dates ! j # rev (take j dates)"
    using j by (simp add: take_Suc_conv_app_nth)
  ultimately show ?case using Suc.IH [OF j, of "s + 1"] by simp
qed

text \<open>
  The streak of \<^verbatim>\<open>calculate_stats\<close> is the streak of the specification on every log:
  0 on the empty one, 1 on a single day, and the length of the run of consecutive days
  that ends at the most recent date otherwise.
\<close>

lemma calculate_stats_streak_spec: "calculate_stats_streak data = spec_streak data"
proof (cases "data = []")
  case True
  then show ?thesis
    by (simp add: calculate_stats_streak_def spec_streak_def sorted_unique_dates_def)
next
  case False
  define dates where "dates = sorted_unique_dates data"
  have "set dates = Date ` set data"
    by (simp add: dates_def sorted_unique_dates_def)
  with False have ne: "dates \<noteq> []" by auto
  then have "length dates - 1 < length dates" by (cases dates) simp_all
  from calculate_stats_loop_walk_back [OF this, of 1] ne
  have "calculate_stats_loop dates (length dates - 1) 1 = walk_back (rev dates)"
    by (cases dates) simp_all
  with False show ?thesis
    by (simp add: calculate_stats_streak_def spec_streak_def dates_def Let_def)
qed

text \<open>
  \<^verbatim>\<open>_calculate_streak\<close> returns the length of the run of consecutive days that starts at
  the oldest date.
\<close>

lemma calculate_streak_loop_walk_forward:
  "i < length dates \<Longrightarrow>
   calculate_streak_loop dates i s + 1 = s + walk_forward (drop i dates)"
proof (induction dates i s rule: calculate_streak_loop.induct)
  case (1 dates i s)
  show ?case
  proof (cases "i < length dates - 1")
    case True
    then have d: "drop i dates = dates ! i # dates ! (i + 1) # drop (i + 2) dates"
      by (metis Cons_nth_drop_Suc Suc_eq_plus1 add_2_eq_Suc' less_diff_conv "1.prems")
    show ?thesis
    proof (cases "dates ! (i + 1) - dates ! i = 1")
      case step: True
      have "drop (i + 1) dates = dates ! (i + 1) # drop (i + 2) dates"
        using True by (metis Cons_nth_drop_Suc Suc_eq_plus1 add_2_eq_Suc' less_diff_conv)
      with 1 True step d show ?thesis by simp
    next
      case False
      with True d show ?thesis by simp
    qed
  next
    case False
    with "1.prems" have "i = length dates - 1" by simp
    then have "drop i dates = [dates ! i]"
      using "1.prems" by (metis Cons_nth_drop_Suc Suc_diff_1 drop_all le_refl length_greater_0_conv list.size(3) not_less_zero)
    with False show ?thesis by simp
  qed
qed

lemma calculate_streak_oldest_run:
  "calculate_streak data = walk_forward (sorted_unique_dates data)"
proof (cases "data = []")
  case True
  then show ?thesis by (simp add: calculate_streak_def sorted_unique_dates_def)
next
  case False
  have "set (sorted_unique_dates data) = Date ` set data"
    by (simp add: sorted_unique_dates_def)
  with False have "sorted_unique_dates data \<noteq> []" by auto
  then have "0 < length (sorted_unique_dates data)" by simp
  from calculate_streak_loop_walk_forward [OF this, of 1] False
  show ?thesis by (simp add: calculate_streak_def)
qed

text \<open>The examples of the specification hold for both implementations, for every day \<open>d\<close>.\<close>

lemma streak_examples_calculate_streak:
  "calculate_streak [] = 0" "calculate_streak (on_days [d]) = 1"
  "calculate_streak (on_days [d, d - 1, d - 2]) = 3"
  "calculate_streak (on_days [d, d - 2]) = 1"
  by (simp_all add: calculate_streak_def sorted_unique_dates_def on_days_def)

lemma streak_examples_calculate_stats:
  "calculate_stats_streak [] = 0" "calculate_stats_streak (on_days [d]) = 1"
  "calculate_stats_streak (on_days [d, d - 1, d - 2]) = 3"
  "calculate_stats_streak (on_days [d, d - 2]) = 1"
  by (simp_all add: calculate_stats_streak_def sorted_unique_dates_def on_days_def
      numeral_3_eq_3)

text \<open>
  On a log whose distinct dates form one run of consecutive days the two implementations
  agree: both return the number of days.
\<close>

lemma sorted_unique_dates_run:
  assumes "Date ` set data = {a..b}"
  shows "sorted_unique_dates data = [a..b]"
proof -
  have "sorted (sorted_unique_dates data)" "distinct (sorted_unique_dates data)"
       "set (sorted_unique_dates data) = {a..b}"
    using assms by (simp_all add: sorted_unique_dates_def)
  moreover have "sorted [a..b]" "distinct [a..b]" "set [a..b] = {a..b}"
    by simp_all
  ultimately show ?thesis by (metis sorted_distinct_set_unique)
qed

lemma calculate_streak_loop_run:
  "i < length [a..b] \<Longrightarrow>
   calculate_streak_loop [a..b] i s = s + (length [a..b] - 1 - i)"
proof (induction "[a..b]" i s rule: calculate_streak_loop.induct)
  case (1 i s)
  show ?case
  proof (cases "i < length [a..b] - 1")
    case True
    then have "[a..b] ! (i + 1) - [a..b] ! i = 1" by (simp add: nth_upto)
    with True 1 show ?thesis by simp
  next
    case False
    with 1 show ?thesis by simp
  qed
qed

lemma calculate_stats_loop_run:
  "j < length [a..b] \<Longrightarrow> calculate_stats_loop [a..b] j s = s + j"
proof (induction j arbitrary: s)
  case 0
  then show ?case by simp
next
  case (Suc j)
  then have "[a..b] ! Suc j - [a..b] ! j = 1" by (simp add: nth_upto)
  with Suc show ?case by simp
qed

lemma streaks_agree_without_gap:
  assumes "Date ` set data = {a..b}" "a \<le> b"
  shows "calculate_streak data = nat (b - a + 1)"
    and "calculate_stats_streak data = nat (b - a + 1)"
proof -
  have ne: "data \<noteq> []" using assms by auto
  have pos: "0 < length [a..b]" using assms(2) by simp
  show "calculate_streak data = nat (b - a + 1)"
    using ne pos calculate_streak_loop_run [of 0 a b 1]
    by (simp add: calculate_streak_def sorted_unique_dates_run [OF assms(1)])
  show "calculate_stats_streak data = nat (b - a + 1)"
    using ne pos calculate_stats_loop_run [of "length [a..b] - 1" a b 1]
    by (simp add: calculate_stats_streak_def sorted_unique_dates_run [OF assms(1)] Let_def)
qed

text \<open>The ordinals of the dates in the examples below.\<close>

lemma example_ordinals:
  "toordinal 2025 1 1 = 739252" "toordinal 2025 1 2 = 739253"
  "toordinal 2025 1 3 = 739254" "toordinal 2025 1 4 = 739255"
  "toordinal 2025 1 10 = 739261"
  by (simp_all add: toordinal_def)

text \<open>
  Claim C1. The specification's streak walks back from the most recent date and stops at the
  first gap, and the claim asserts it of both implementations.
  \<^verbatim>\<open>StudyAnalyzer._calculate_streak\<close> walks forward from the oldest date instead, so it
  returns the length of the oldest run. On entries dated 2025-01-01, 2025-01-02 and
  2025-01-04 (ordinals 739252, 739253, 739255) it returns 2, where the streak that ends at
  the most recent date is 1.
\<close>

theorem calculate_streak_counts_oldest_run:
  "calculate_streak (on_days [739252, 739253, 739255]) = 2 \<and>
   spec_streak (on_days [739252, 739253, 739255]) = 1"
  by (simp add: calculate_streak_def sorted_unique_dates_def spec_streak_def on_days_def)

text \<open>
  Claim C10. The two implementations are claimed to return the same streak on every entry
  collection. On the dates 2025-01-01, 2025-01-02 and 2025-01-04 they differ:
  \<^verbatim>\<open>_calculate_streak\<close> returns 2 and \<^verbatim>\<open>calculate_stats\<close> returns 1.
\<close>

theorem streak_implementations_differ:
  "calculate_streak (on_days [739252, 739253, 739255]) = 2 \<and>
   calculate_stats_streak (on_days [739252, 739253, 739255]) = 1"
  by (simp add: calculate_streak_def sorted_unique_dates_def calculate_stats_streak_def
      on_days_def numeral_2_eq_2)

section \<open>Properties of rounding\<close>

lemma round_half_even_error: "\<bar>of_int (round_half_even x) - x\<bar> \<le> 1 / 2"
proof -
  have "of_int \<lfloor>x\<rfloor> \<le> x" "x < of_int \<lfloor>x\<rfloor> + 1" by linarith+
  then show ?thesis
    unfolding round_half_even_def Let_def by (simp add: abs_le_iff)
qed


lemma py_round_error: "\<bar>py_round x n - x\<bar> \<le> 1 / (2 * 10 ^ n)"
proof -
  have pos: "(0::rat) < 10 ^ n" by simp
  have "\<bar>of_int (round_half_even (x * 10 ^ n)) - x * 10 ^ n\<bar> \<le> 1 / 2"
    by (rule round_half_even_error)
  then have "\<bar>of_int (round_half_even (x * 10 ^ n)) - x * 10 ^ n\<bar> / 10 ^ n \<le> (1 / 2) / 10 ^ n"
    using pos by (rule divide_right_mono [OF _ less_imp_le])
  moreover have "py_round x n - x = (of_int (round_half_even (x * 10 ^ n)) - x * 10 ^ n) / 10 ^ n"
    by (simp add: py_round_def field_simps)
  ultimately show ?thesis by (simp add: abs_divide)
qed


section \<open>Properties of the consistency score\<close>





text \<open>
  The range is measured between the first and the last studied day, so one studied day
  always comes with a range of one day.
\<close>

lemma one_studied_day_has_range_one:
  assumes "card (Date ` set data) = 1"
  shows "Max (Date ` set data) - Min (Date ` set data) + 1 = 1"
proof -
  from assms obtain d where "Date ` set data = {d}" by (auto simp: card_1_singleton_iff)
  then show ?thesis by simp
qed




section \<open>Properties of the target progress\<close>

text \<open>
  Against claim C8 as it is written: the percentage is capped at 100 by \<^verbatim>\<open>min\<close> and
  nothing bounds it from below, so a negative current value (a log holding the duration
  \<^verbatim>\<open>"-5 hr"\<close>, say) gives a negative percentage.
\<close>

theorem target_progress_negative_counterexample:
  "hours_percent (- 5) 10 = - 50 \<and> questions_percent (- 5) 10 = - 50"
  by (simp add: hours_percent_def questions_percent_def py_int_def)

lemma py_int_percent_nonneg:
  assumes "0 \<le> current"
  shows "0 \<le> py_int (if 0 < target then current / target * 100 else 0)"
proof -
  have "0 \<le> (if 0 < target then current / target * 100 else 0)"
    using assms by simp
  then show ?thesis by (simp only: py_int_def if_True zero_le_floor)
qed

text \<open>
  Claim C8, amended. For every current value and target both percentages are at most 100,
  and for every current value that is not negative they lie in [0, 100]. A zero target
  gives 0. In particular progress(5, 10) = 50, progress(20, 10) = 100 and
  progress(5, 0) = 0, for the hours and for the questions.
\<close>

theorem target_progress_clamped:
  "hours_percent current target \<le> 100 \<and>
   questions_percent current target \<le> 100 \<and>
   (0 \<le> current \<longrightarrow> 0 \<le> hours_percent current target \<and>
                     0 \<le> questions_percent current target) \<and>
   hours_percent current 0 = 0 \<and> questions_percent current 0 = 0 \<and>
   hours_percent 5 10 = 50 \<and> questions_percent 5 10 = 50 \<and>
   hours_percent 20 10 = 100 \<and> questions_percent 20 10 = 100 \<and>
   hours_percent 5 0 = 0 \<and> questions_percent 5 0 = 0"
  using py_int_percent_nonneg [of current target]
  by (simp add: hours_percent_def questions_percent_def) (simp add: py_int_def)

text \<open>Seven hours of a target of ten.\<close>

theorem target_progress_clamped_witness:
  "(0::rat) \<le> 7 \<and> 0 \<le> hours_percent 7 10 \<and> 0 \<le> questions_percent 7 10 \<and>
   hours_percent 7 10 = 70"
proof -
  have h: "(0::rat) \<le> 7" by simp
  have "hours_percent 7 10 = 70" by (simp add: hours_percent_def py_int_def)
  with target_progress_clamped [of 7 10] h show ?thesis by blast
qed

section \<open>Properties of the subject balance\<close>

text \<open>The sums of the groups add up to the sum of the whole column.\<close>

lemma subject_sums_total:
  "finite K \<Longrightarrow> Subject ` set data \<subseteq> K \<Longrightarrow>
   (\<Sum>s\<in>K. subject_sum data s) = sum_list (map Study_Duration data)"
proof (induction data)
  case Nil
  then show ?case by (simp add: subject_sum_def)
next
  case (Cons r rs)
  have "(\<Sum>s\<in>K. subject_sum (r # rs) s)
      = (\<Sum>s\<in>K. (if s = Subject r then Study_Duration r else 0) + subject_sum rs s)"
    by (rule sum.cong) (auto simp: subject_sum_def)
  also have "\<dots> = (\<Sum>s\<in>K. if s = Subject r then Study_Duration r else 0)
                 + (\<Sum>s\<in>K. subject_sum rs s)"
    by (rule sum.distrib)
  also have "(\<Sum>s\<in>K. if s = Subject r then Study_Duration r else 0) = Study_Duration r"
    using Cons.prems by (simp add: sum.delta)
  finally show ?case using Cons by simp
qed

lemma groupby_sum_total:
  "sum_list (map snd (groupby_sum data)) = sum_list (map Study_Duration data)"
proof -
  have "sum_list (map snd (groupby_sum data))
        = sum_list (map (subject_sum data) (sort (remdups (map Subject data))))"
    by (simp add: groupby_sum_def comp_def)
  also have "\<dots> = sum (subject_sum data) (set (sort (remdups (map Subject data))))"
    by (rule sum_list_distinct_conv_sum_set) simp
  also have "\<dots> = sum_list (map Study_Duration data)"
    by (rule subject_sums_total) auto
  finally show ?thesis .
qed

lemma rounded_shares_sum:
  fixes f :: "string \<Rightarrow> rat"
  assumes "t \<noteq> 0" "sum_list (map f ks) = t"
  shows "\<bar>sum_list (map (\<lambda>s. py_round (f s / t * 100) n) ks) - 100\<bar>
           \<le> of_nat (length ks) / (2 * 10 ^ n)"
proof -
  have *: "\<bar>sum_list (map (\<lambda>s. py_round (f s / t * 100) n) xs)
            - sum_list (map (\<lambda>s. f s / t * 100) xs)\<bar>
        \<le> of_nat (length xs) / (2 * 10 ^ n)" for xs
  proof (induction xs)
    case Nil
    then show ?case by simp
  next
    case (Cons p xs)
    have "\<bar>py_round (f p / t * 100) n - f p / t * 100\<bar> \<le> 1 / (2 * 10 ^ n)"
      by (rule py_round_error)
    with Cons show ?case by (simp add: add_divide_distrib)
  qed
  have "sum_list (map (\<lambda>s. f s / t * 100) ks) = sum_list (map f ks) / t * 100"
    by (induction ks) (simp_all add: field_simps add_divide_distrib)
  also have "\<dots> = 100" using assms by simp
  finally have "sum_list (map (\<lambda>s. f s / t * 100) ks) = 100" .
  then show ?thesis using * [of ks] by simp
qed

lemma spec_percentages_sum:
  assumes "sum_list (map Study_Duration data) \<noteq> 0"
  shows "\<bar>sum_list (map snd (spec_percentages data n)) - 100\<bar>
           \<le> of_nat (card (Subject ` set data)) / (2 * 10 ^ n)"
proof -
  let ?ks = "sort (remdups (map Subject data))"
  let ?t = "sum_list (map Study_Duration data)"
  have "sum_list (map (subject_sum data) ?ks) = ?t"
    using groupby_sum_total [of data] by (simp add: groupby_sum_def comp_def)
  from rounded_shares_sum [OF assms this, of n]
  have "\<bar>sum_list (map (\<lambda>s. py_round (subject_sum data s / ?t * 100) n) ?ks) - 100\<bar>
          \<le> of_nat (length ?ks) / (2 * 10 ^ n)" .
  moreover have "length ?ks = card (Subject ` set data)"
    by (simp add: length_remdups_card_conv)
  moreover have "map snd (spec_percentages data n)
                 = map (\<lambda>s. py_round (subject_sum data s / ?t * 100) n) ?ks"
    by (simp add: spec_percentages_def comp_def)
  ultimately show ?thesis by simp
qed

lemma dashboard_percentage_positive:
  assumes "0 < sum_list (map Study_Duration data)"
  shows "show_dashboard_percentage data = Some (spec_percentages data 1)"
proof -
  have "data \<noteq> []" using assms by auto
  then show ?thesis using assms
    by (simp add: show_dashboard_percentage_def Let_def groupby_sum_total)
       (simp add: groupby_sum_def spec_percentages_def comp_def)
qed

lemma subject_balance_nonzero:
  assumes "sum_list (map Study_Duration data) \<noteq> 0"
  shows "analyze_subject_balance data = spec_percentages data 2"
proof -
  have "data \<noteq> []" using assms by auto
  then show ?thesis using assms
    by (simp add: analyze_subject_balance_def Let_def groupby_sum_total)
       (simp add: groupby_sum_def spec_percentages_def comp_def)
qed

lemma zero_total_omitted:
  assumes "sum_list (map Study_Duration data) = 0"
  shows "show_dashboard_percentage data = None \<and> analyze_subject_balance data = []"
  using assms
  by (simp add: show_dashboard_percentage_def analyze_subject_balance_def Let_def
      groupby_sum_total)

text \<open>
  Against claim C9 as it is written: \<^verbatim>\<open>_analyze_subject_balance\<close> rounds to 2 decimals,
  not to 1. For one hour of Physics and two of Chemistry it returns 66.67 and 33.33, where
  rounding to 1 decimal gives 66.7 and 33.3.
\<close>

theorem subject_balance_two_decimals_counterexample:
  "analyze_subject_balance two_subjects = [(''Chemistry'', 6667 / 100), (''Physics'', 3333 / 100)] \<and>
   spec_percentages two_subjects 1 = [(''Chemistry'', 667 / 10), (''Physics'', 333 / 10)]"
  unfolding two_subjects_def by code_simp

text \<open>
  Claim C9, amended. When the total duration is positive, each subject's percentage is its
  summed duration divided by the total, times 100, rounded to 1 decimal in
  \<^verbatim>\<open>show_dashboard\<close> and to 2 decimals in \<^verbatim>\<open>_analyze_subject_balance\<close>; over \<open>n\<close>
  subjects the percentages sum to 100 within \<open>n \<times> 0.05\<close> and \<open>n \<times> 0.005\<close>. When the
  total is zero there is no division: the dashboard has no percentages and the analyzer
  returns the empty dictionary.
\<close>

theorem subject_percentages:
  "(0 < sum_list (map Study_Duration data) \<longrightarrow>
      show_dashboard_percentage data = Some (spec_percentages data 1) \<and>
      analyze_subject_balance data = spec_percentages data 2 \<and>
      \<bar>sum_list (map snd (spec_percentages data 1)) - 100\<bar>
         \<le> of_nat (card (Subject ` set data)) / 20 \<and>
      \<bar>sum_list (map snd (spec_percentages data 2)) - 100\<bar>
         \<le> of_nat (card (Subject ` set data)) / 200) \<and>
   (sum_list (map Study_Duration data) = 0 \<longrightarrow>
      show_dashboard_percentage data = None \<and> analyze_subject_balance data = [])"
proof -
  have "\<bar>sum_list (map snd (spec_percentages data 1)) - 100\<bar>
          \<le> of_nat (card (Subject ` set data)) / 20"
    if "0 < sum_list (map Study_Duration data)"
    using that spec_percentages_sum [of data 1] by simp
  moreover have "\<bar>sum_list (map snd (spec_percentages data 2)) - 100\<bar>
          \<le> of_nat (card (Subject ` set data)) / 200"
    if "0 < sum_list (map Study_Duration data)"
    using that spec_percentages_sum [of data 2] by simp
  ultimately show ?thesis
    using dashboard_percentage_positive [of data] subject_balance_nonzero [of data]
      zero_total_omitted [of data]
    by auto
qed

text \<open>A log with a positive total and a log whose total is zero.\<close>

theorem subject_percentages_witness:
  "0 < sum_list (map Study_Duration two_subjects) \<and>
   show_dashboard_percentage two_subjects = Some [(''Chemistry'', 667 / 10), (''Physics'', 333 / 10)] \<and>
   analyze_subject_balance two_subjects = spec_percentages two_subjects 2 \<and>
   sum_list (map Study_Duration idle_log) = 0 \<and>
   show_dashboard_percentage idle_log = None \<and> analyze_subject_balance idle_log = []"
proof -
  have h1: "0 < sum_list (map Study_Duration two_subjects)" by (simp add: two_subjects_def)
  have h0: "sum_list (map Study_Duration idle_log) = 0" by (simp add: idle_log_def)
  have e: "spec_percentages two_subjects 1 = [(''Chemistry'', 667 / 10), (''Physics'', 333 / 10)]"
    unfolding two_subjects_def by code_simp
  from subject_percentages [of two_subjects] h1
  have "show_dashboard_percentage two_subjects = Some (spec_percentages two_subjects 1)"
       "analyze_subject_balance two_subjects = spec_percentages two_subjects 2"
    by blast+
  moreover from subject_percentages [of idle_log] h0
  have "show_dashboard_percentage idle_log = None \<and> analyze_subject_balance idle_log = []"
    by blast
  ultimately show ?thesis using h1 h0 e by simp
qed

section \<open>Properties of the entry validator\<close>

text \<open>A candidate that lacks a required key is rejected.\<close>

lemma validate_study_entry_missing_key:
  assumes "field \<in> set required_fields" "entry field = None"
  shows "validate_study_entry entry = Inr False"
proof -
  have "\<not> list_all (\<lambda>field. entry field \<noteq> None) required_fields"
    using assms by (auto simp: list_all_iff)
  then show ?thesis by (simp add: validate_study_entry_def)
qed

lemma required_present: "list_all (\<lambda>field. candidate_of d s h field \<noteq> None) required_fields"
  by (simp add: candidate_of_def required_fields_def)

lemma subject_check:
  "candidate_of d s h ''Subject'' \<in> (\<lambda>s. Some (PStr s)) ` set valid_subjects
     \<longleftrightarrow> s \<in> set valid_subjects"
  by (auto simp: candidate_of_def)

text \<open>
  On a candidate with three string values whose duration has a leading token that does
  not read as NaN, the validator returns a verdict, and the verdict is the conjunction of
  the three checks of the specification.
\<close>

lemma validate_study_entry_on_strings:
  assumes "py_split h = tok # rest" "py_float tok \<noteq> Some NaN"
  shows "validate_study_entry (candidate_of d s h) =
         Inr (strptime_ymd d \<noteq> None \<and> s \<in> set valid_subjects \<and> spec_duration_in_range tok)"
proof -
  have d: "candidate_of d s h ''Date'' = Some (PStr d)"
    and h: "candidate_of d s h ''Study Duration'' = Some (PStr h)"
    by (simp_all add: candidate_of_def)
  have range: "(case py_float tok of None \<Rightarrow> Inr False
                | Some duration \<Rightarrow> if float_less duration 0 \<or> float_greater duration 24
                                   then Inr False else Inr True)
               = (Inr (spec_duration_in_range tok) :: py_error + bool)"
    using assms(2)
    by (auto simp: spec_duration_in_range_def float_less_def float_greater_def
             split: option.splits pyfloat.splits)
  show ?thesis
    unfolding validate_study_entry_def
    using required_present [of d s h] range
    by (simp add: d h subject_check assms(1) split: option.splits)
qed

lemma validate_study_entry_examples:
  "validate_study_entry (candidate_of ''2025-02-30'' ''Physics'' ''2 hr'') = Inr False"
  "validate_study_entry (candidate_of ''2025-02-20'' ''Math'' ''2 hr'') = Inr False"
  "validate_study_entry (candidate_of ''2025-02-20'' ''Physics'' ''2 hr'') = Inr True"
  "validate_study_entry (candidate_of ''2025-02-20'' ''Physics'' ''24.5 hr'') = Inr False"
  unfolding candidate_of_def by code_simp+

text \<open>
  Claim C6. The validator is claimed to return false exactly when a required key is
  missing, the date does not parse, the subject is not one of the four, or the leading
  token of the duration does not parse as a float in [0, 24]. The range check is
  \<^verbatim>\<open>duration < 0 or duration > 24\<close>, and both comparisons are false for NaN: the duration
  \<^verbatim>\<open>"nan hr"\<close> parses as a float that is not in [0, 24], and the candidate is accepted.
\<close>

theorem validate_accepts_nan_duration:
  "validate_study_entry (candidate_of ''2025-02-20'' ''Physics'' ''nan hr'') = Inr True \<and>
   py_split ''nan hr'' = [''nan'', ''hr''] \<and> py_float ''nan'' = Some NaN \<and>
   \<not> spec_duration_in_range ''nan''"
  unfolding candidate_of_def by code_simp

text \<open>
  Claim C7. The validator is claimed to return a boolean on every candidate, the empty
  duration string included. On a duration without tokens, \<^verbatim>\<open>split()[0]\<close> raises
  \<^verbatim>\<open>IndexError\<close>, which is not caught: the validator raises instead of returning false.
  A date that is not a string leaves as \<^verbatim>\<open>TypeError\<close> in the same way.
\<close>

theorem validate_raises_on_empty_duration:
  "validate_study_entry (candidate_of ''2025-02-20'' ''Physics'' '''') = Inl IndexError \<and>
   validate_study_entry (candidate_of ''2025-02-20'' ''Physics'' ''   '') = Inl IndexError \<and>
   validate_study_entry [''Date'' \<mapsto> PNonStr, ''Subject'' \<mapsto> PStr ''Physics'',
                         ''Study Duration'' \<mapsto> PStr ''2 hr''] = Inl TypeError"
  unfolding candidate_of_def by code_simp

section \<open>Properties of the persistence store\<close>

lemma save_data_success:
  assumes "dumps js data = Inr text"
    and "\<not> replace_fails fl" "\<not> open_fails fl" "write_fails fl = None" "\<not> remove_fails fl"
  shows "save_data js fl data_dir fs filename data =
         ((fs(get_file_path data_dir filename \<mapsto> text))
             (get_file_path data_dir filename @ ''.backup'' := None), Inr True)"
  using assms
  by (auto simp: save_data_def save_data_try_def os_replace_def Let_def fun_upd_twist
           split: option.splits)

lemma save_data_write_exception:
  assumes "fs (get_file_path data_dir filename) = Some old"
    and "write_exception js fl data" "\<not> replace_fails fl" "\<not> restore_fails fl"
  shows "save_data js fl data_dir fs filename data =
         (fs(get_file_path data_dir filename @ ''.backup'' := None), Inr False)"
proof -
  let ?p = "get_file_path data_dir filename"
  let ?b = "?p @ ''.backup''"
  have ne: "?b \<noteq> ?p" by simp
  have r: "os_replace (os_replace fs ?p ?b) ?b ?p = fs(?b := None)"
    using assms(1) ne by (auto simp: os_replace_def fun_eq_iff)
  have r2: "os_replace ((os_replace fs ?p ?b)(?p \<mapsto> x)) ?b ?p = fs(?b := None)" for x
    using assms(1) ne by (auto simp: os_replace_def fun_eq_iff)
  have b: "os_replace fs ?p ?b ?b = Some old" "((os_replace fs ?p ?b)(?p \<mapsto> x)) ?b = Some old" for x
    using assms(1) ne by (auto simp: os_replace_def)
  show ?thesis
    using assms b r r2
    by (auto simp: save_data_def save_data_try_def write_exception_def Let_def
             split: option.splits sum.splits)
qed

lemma save_data_write_exception_false:
  assumes "write_exception js fl data" "\<not> replace_fails fl" "\<not> restore_fails fl"
  shows "snd (save_data js fl data_dir fs filename data) = Inr False"
  using assms
  by (auto simp: save_data_def save_data_try_def write_exception_def Let_def
           split: option.splits sum.splits)



text \<open>
  Claim C3. When no call fails, \<^verbatim>\<open>save_data\<close> returns true and leaves the new content
  in the file and no backup. When the file exists and writing the new content raises
  (at \<^verbatim>\<open>open\<close> or during the dump), the original was renamed to the backup before the
  write, the handler renames it back, and \<^verbatim>\<open>save_data\<close> returns false: the file holds
  its old content, no other file has changed, and \<^verbatim>\<open>load_data\<close> returns what it returned
  before. Whether or not a file existed, a write that raises makes \<^verbatim>\<open>save_data\<close> return
  false. The two renames themselves are taken to succeed.
\<close>

theorem save_data_backup_protocol:
  "(dumps js data = Inr text \<and> \<not> replace_fails fl \<and> \<not> open_fails fl \<and>
    write_fails fl = None \<and> \<not> remove_fails fl \<longrightarrow>
      save_data js fl data_dir fs filename data =
        ((fs(get_file_path data_dir filename \<mapsto> text))
            (get_file_path data_dir filename @ ''.backup'' := None), Inr True)) \<and>
   (fs (get_file_path data_dir filename) = Some old \<and> write_exception js fl data \<and>
    \<not> replace_fails fl \<and> \<not> restore_fails fl \<longrightarrow>
      fst (save_data_try js fl fs (get_file_path data_dir filename)
             (get_file_path data_dir filename @ ''.backup'') data)
          (get_file_path data_dir filename @ ''.backup'') = Some old \<and>
      save_data js fl data_dir fs filename data =
        (fs(get_file_path data_dir filename @ ''.backup'' := None), Inr False) \<and>
      fst (save_data js fl data_dir fs filename data) (get_file_path data_dir filename) = Some old \<and>
      load_data js fl' data_dir (fst (save_data js fl data_dir fs filename data)) filename =
        load_data js fl' data_dir fs filename) \<and>
   (write_exception js fl data \<and> \<not> replace_fails fl \<and> \<not> restore_fails fl \<longrightarrow>
      snd (save_data js fl data_dir fs filename data) = Inr False)"
proof -
  let ?p = "get_file_path data_dir filename"
  let ?b = "?p @ ''.backup''"
  have ne: "?b \<noteq> ?p" by simp
  have backup: "fst (save_data_try js fl fs ?p ?b data) ?b = Some old"
    if "fs ?p = Some old" "write_exception js fl data" "\<not> replace_fails fl"
    using that ne
    by (auto simp: save_data_try_def write_exception_def os_replace_def Let_def
             split: option.splits sum.splits)
  have restored: "load_data js fl' data_dir (fs(?b := None)) filename
                  = load_data js fl' data_dir fs filename"
    using ne by (simp add: load_data_def)
  show ?thesis
    using save_data_success [of js data "text" fl data_dir fs filename]
      save_data_write_exception [of fs data_dir filename old js fl data] backup restored ne
      save_data_write_exception_false [of js fl data data_dir fs filename]
    by auto
qed

text \<open>
  A save that succeeds, and a save whose dump raises on a file that holds \<^verbatim>\<open>[]\<close>.
\<close>

theorem save_data_backup_protocol_witness:
  "save_data sample_codec no_faults ''data'' sample_fs ''log.json'' (JArr [JObj []]) =
     ([''data/log.json'' \<mapsto> sample_text], Inr True) \<and>
   sample_fs (get_file_path ''data'' ''log.json'') = Some ''[]'' \<and>
   write_exception sample_codec no_faults (JArr [JNull]) \<and>
   save_data sample_codec no_faults ''data'' sample_fs ''log.json'' (JArr [JNull]) =
     (sample_fs, Inr False)"
proof -
  have p: "get_file_path ''data'' ''log.json'' = ''data/log.json''"
    by (simp add: get_file_path_def)
  have d: "dumps sample_codec (JArr [JObj []]) = Inr sample_text"
    by (simp add: sample_codec_def)
  have f: "\<not> replace_fails no_faults" "\<not> open_fails no_faults" "write_fails no_faults = None"
          "\<not> remove_fails no_faults" "\<not> restore_fails no_faults"
    by (simp_all add: no_faults_def)
  have old: "sample_fs (get_file_path ''data'' ''log.json'') = Some ''[]''"
    by (simp add: p sample_fs_def)
  have w: "write_exception sample_codec no_faults (JArr [JNull])"
    by (simp add: write_exception_def sample_codec_def)
  have e1: "(sample_fs(''data/log.json'' \<mapsto> sample_text))(''data/log.json'' @ ''.backup'' := None)
            = [''data/log.json'' \<mapsto> sample_text]"
    by (auto simp: sample_fs_def fun_eq_iff)
  have e2: "sample_fs(''data/log.json'' @ ''.backup'' := None) = sample_fs"
    by (auto simp: sample_fs_def fun_eq_iff)
  from save_data_backup_protocol
         [of sample_codec "JArr [JObj []]" sample_text no_faults "''data''" sample_fs "''log.json''"]
       d f
  have "save_data sample_codec no_faults ''data'' sample_fs ''log.json'' (JArr [JObj []]) =
          ([''data/log.json'' \<mapsto> sample_text], Inr True)"
    by (simp only: p e1) simp
  moreover
  from save_data_backup_protocol
         [of sample_codec "JArr [JNull]" "''''" no_faults "''data''" sample_fs "''log.json''" "''[]''"]
       old w f
  have "save_data sample_codec no_faults ''data'' sample_fs ''log.json'' (JArr [JNull]) =
          (sample_fs, Inr False)"
    by (simp only: p e2) simp
  ultimately show ?thesis using old w by simp
qed



section \<open>Properties of the account store\<close>





lemma is_locked_failed_attempts [simp]:
  "is_locked (u\<lparr>failed_attempts := n\<rparr>) now = is_locked u now"
  by (simp add: is_locked_def)




end
